theory Spec2Isabelle
  imports Main "HOL-Library.Sublist"
begin

section \<open>The quote pipeline of \<^verbatim>\<open>scripts/quotes.js\<close>\<close>

text \<open>
  The script keeps quotes in the browser's \<^verbatim>\<open>localStorage\<close>, decides when the cache of a
  language is stale, picks the language file to download, falls back over three
  single-quote providers and, last, to a hardcoded quote. The development below embeds
  these functions: \<^verbatim>\<open>localStorage\<close> is a map from keys to strings, the module variable
  \<^verbatim>\<open>lastKnownLanguage\<close> and the list of requests sent so far are the rest of the state,
  an exception is a value of type \<open>error\<close>, and every capability of the browser
  (\<^verbatim>\<open>JSON\<close>, \<^verbatim>\<open>Date\<close>, \<^verbatim>\<open>navigator.onLine\<close>, \<^verbatim>\<open>fetch\<close>) is a field of the
  environment, left arbitrary in the theorems.
\<close>

subsection \<open>Data\<close>

text \<open>A quote as the script handles it: \<^verbatim>\<open>{ quote: ..., author: ... }\<close>.\<close>

record quote =
  quote :: string
  author :: string

text \<open>
  The catalogue of the multilingual API,
  \<^verbatim>\<open>{ lastUpdated, files: { "<lang>.json": { count } } }\<close>. Every member the script reads
  through \<^verbatim>\<open>?.\<close> or \<^verbatim>\<open>||\<close> may be missing.
\<close>

record langfile =
  count :: "int option"

record metadata =
  lastUpdated :: "string option"
  files :: "(string \<rightharpoonup> langfile) option"

text \<open>The body of a single-quote provider, before normalisation.\<close>

record raw_quote =
  raw_quote :: "string option"
  raw_text :: "string option"
  raw_content :: "string option"
  raw_en :: "string option"
  raw_author :: "string option"
  raw_by :: "string option"

text \<open>
  What \<^verbatim>\<open>JSON.parse\<close> makes of a cached value: \<^verbatim>\<open>null\<close> or an array of quotes, the two
  shapes the script writes and tests for; JSON of another shape is outside the model.
  The result \<open>None\<close> of the environment's parser stands for its \<^verbatim>\<open>SyntaxError\<close>.
\<close>

datatype cached = JNull | JArray "quote list"

datatype error =
    NetworkError            \<comment> \<open>\<^verbatim>\<open>fetch\<close> rejected\<close>
  | BodyError               \<comment> \<open>\<^verbatim>\<open>response.json()\<close> rejected\<close>
  | HttpError               \<comment> \<open>\<^verbatim>\<open>HTTP error! status: ...\<close>\<close>
  | NullError               \<comment> \<open>a member read from \<^verbatim>\<open>null\<close>\<close>
  | JsonSyntaxError         \<comment> \<open>\<^verbatim>\<open>JSON.parse\<close> rejected the text\<close>
  | AllAlternativesFailed   \<comment> \<open>\<^verbatim>\<open>All alternative quote APIs failed\<close>\<close>

datatype request = GetMetadata | GetQuotes string | GetVercel | GetProgramming | GetDummyJson

text \<open>
  The answer to one \<^verbatim>\<open>fetch\<close>: the promise rejects, or it resolves to a response with its
  \<^verbatim>\<open>ok\<close> flag and a body; the body \<open>None\<close> is one that \<^verbatim>\<open>response.json()\<close> rejects.
\<close>

datatype 'a response = Rejected | Http bool "'a option"

type_synonym storage = "string \<rightharpoonup> string"

record world =
  localStorage :: storage
  lastKnownLanguage :: "string option"
  fetchLog :: "request list"

text \<open>
  Everything the script takes from outside. A network answer may depend on all the
  requests sent before it, so two calls of one provider can differ. One call runs at a
  time: the current language, the online flag and the clock are read as they stand when
  the call begins.
\<close>

record env =
  currentLanguage :: string
  onLine :: bool
  now :: int
  JSON_parse :: "string \<Rightarrow> cached option"
  JSON_stringify :: "quote list \<Rightarrow> string"
  Date_getTime :: "string \<Rightarrow> int option"
  toISOString :: "int \<Rightarrow> string"
  Number_toString :: "int \<Rightarrow> string"
  metadataApi :: "request list \<Rightarrow> metadata option response"
  quotesApi :: "request list \<Rightarrow> string \<Rightarrow> quote list response"
  vercelApi :: "request list \<Rightarrow> raw_quote option response"
  programmingApi :: "request list \<Rightarrow> raw_quote option response"
  dummyjsonApi :: "request list \<Rightarrow> raw_quote option response"

definition MAX_QUOTE_LENGTH :: nat where
  "MAX_QUOTE_LENGTH = 140"

definition MIN_QUOTES_FOR_LANG :: int where
  "MIN_QUOTES_FOR_LANG = 100"

definition ONE_DAY :: int where
  "ONE_DAY = 24 * 60 * 60 * 1000"

definition FALLBACK_QUOTE :: quote where
  "FALLBACK_QUOTE =
     \<lparr>quote = ''Don'' @ [CHR 0x27] @ ''t watch the clock; do what it does. Keep going.'',
      author = ''Sam Levenson''\<rparr>"

subsection \<open>Keys and primitive values\<close>

definition quotesKey :: "string \<Rightarrow> string" where
  "quotesKey lang = ''quotes_'' @ lang"

definition timestampKey :: "string \<Rightarrow> string" where
  "timestampKey lang = ''quotes_'' @ lang @ ''_timestamp''"

definition countKey :: "string \<Rightarrow> string" where
  "countKey lang = ''quotes_'' @ lang @ ''_count''"

definition metadataTimestampKey :: string where
  "metadataTimestampKey = ''quotes_metadata_timestamp''"

definition fileName :: "string \<Rightarrow> string" where
  "fileName lang = lang @ ''.json''"

text \<open>\<^verbatim>\<open>!localStorage.getItem(key)\<close>: the key is absent or holds the empty string.\<close>

definition falsy :: "string option \<Rightarrow> bool" where
  "falsy v = (case v of None \<Rightarrow> True | Some s \<Rightarrow> s = [])"

text \<open>\<^verbatim>\<open>a || b || ... || d\<close> on members that may be missing: the first non-empty one.\<close>

fun firstTruthy :: "string option list \<Rightarrow> string \<Rightarrow> string" where
  "firstTruthy [] d = d"
| "firstTruthy (v # vs) d =
     (case v of None \<Rightarrow> firstTruthy vs d | Some s \<Rightarrow> if s = [] then firstTruthy vs d else s)"

text \<open>
  A text of the script is a sequence of UTF-16 code units. A \<open>char\<close> stands for the
  code unit of the same number, so the texts of the model are those whose code units
  are below 256; a text with a larger code unit has no counterpart here.

  \<^verbatim>\<open>parseInt(string)\<close> without a radix: leading white space and line terminators are
  skipped, a sign is read, a prefix \<^verbatim>\<open>0x\<close> or \<^verbatim>\<open>0X\<close> selects base 16, and the longest run
  of digits is the value; no digit at all gives \<^verbatim>\<open>NaN\<close>, here \<open>None\<close>. The code units
  below 256 that JavaScript skips are the tabulator, line feed, vertical tabulator, form
  feed and carriage return (9 to 13), the space (32) and the no-break space (160).
\<close>

definition isWhiteSpace :: "char \<Rightarrow> bool" where
  "isWhiteSpace c =
     (let n = (of_char c :: nat) in (9 \<le> n \<and> n \<le> 13) \<or> n = 32 \<or> n = 160)"

definition digitOf :: "nat \<Rightarrow> char \<Rightarrow> nat option" where
  "digitOf radix c =
     (let n = (of_char c :: nat);
          d = (if 48 \<le> n \<and> n \<le> 57 then Some (n - 48)
               else if 97 \<le> n \<and> n \<le> 122 then Some (n - 87)
               else if 65 \<le> n \<and> n \<le> 90 then Some (n - 55)
               else None)
      in case d of None \<Rightarrow> None | Some v \<Rightarrow> if v < radix then Some v else None)"

fun readDigits :: "nat \<Rightarrow> string \<Rightarrow> nat list" where
  "readDigits radix [] = []"
| "readDigits radix (c # cs) =
     (case digitOf radix c of None \<Rightarrow> [] | Some d \<Rightarrow> d # readDigits radix cs)"

definition stripSign :: "string \<Rightarrow> bool \<times> string" where
  "stripSign s =
     (case s of
        c # cs \<Rightarrow> if c = CHR ''-'' then (True, cs) else if c = CHR ''+'' then (False, cs) else (False, s)
      | [] \<Rightarrow> (False, s))"

definition stripHexPrefix :: "string \<Rightarrow> nat \<times> string" where
  "stripHexPrefix s =
     (case s of
        c # d # cs \<Rightarrow>
          if c = CHR ''0'' \<and> (d = CHR ''x'' \<or> d = CHR ''X'') then (16, cs) else (10, s)
      | _ \<Rightarrow> (10, s))"

definition parseInt :: "string \<Rightarrow> int option" where
  "parseInt s =
     (let (negative, s1) = stripSign (dropWhile isWhiteSpace s);
          (radix, s2) = stripHexPrefix s1;
          ds = readDigits radix s2
      in if ds = [] then None
         else Some ((if negative then - 1 else 1) * int (foldl (\<lambda>a d. a * radix + d) 0 ds)))"

text \<open>\<^verbatim>\<open>parseInt(localStorage.getItem(key))\<close>: an absent key is \<^verbatim>\<open>null\<close>, read as the text \<^verbatim>\<open>null\<close>.\<close>

definition parseIntItem :: "string option \<Rightarrow> int option" where
  "parseIntItem v = parseInt (case v of None \<Rightarrow> ''null'' | Some s \<Rightarrow> s)"

text \<open>\<^verbatim>\<open>n || 0\<close> on a number that may be \<^verbatim>\<open>NaN\<close>.\<close>

definition orZero :: "int option \<Rightarrow> int" where
  "orZero v = (case v of None \<Rightarrow> 0 | Some n \<Rightarrow> n)"

text \<open>
  The decimal digits of an integer, with a minus sign for a negative one. This is the
  text that \<^verbatim>\<open>Number.prototype.toString\<close> gives for a number that JavaScript holds
  exactly and prints without an exponent; what it gives for any number is the
  environment's \<open>Number_toString\<close>.
\<close>

fun digits :: "nat \<Rightarrow> string" where
  "digits n = (if n < 10 then [char_of (48 + n)] else digits (n div 10) @ [char_of (48 + n mod 10)])"

declare digits.simps [simp del]

definition decimal :: "int \<Rightarrow> string" where
  "decimal i = (if i < 0 then CHR ''-'' # digits (nat (- i)) else digits (nat i))"

text \<open>\<^verbatim>\<open>a > b\<close> where \<open>a\<close> may be \<^verbatim>\<open>NaN\<close>: every comparison with \<^verbatim>\<open>NaN\<close> is false.\<close>

definition greaterThan :: "int option \<Rightarrow> int \<Rightarrow> bool" where
  "greaterThan a b = (case a of None \<Rightarrow> False | Some x \<Rightarrow> x > b)"

subsection \<open>The cache store\<close>


definition clearOtherLanguageQuotes :: "string \<Rightarrow> storage \<Rightarrow> storage" where
  "clearOtherLanguageQuotes exceptLang st =
     (\<lambda>key. if prefix ''quotes_'' key
                \<and> \<not> sublist (''quotes_'' @ exceptLang) key
                \<and> key \<noteq> ''quotes_metadata_timestamp''
             then None else st key)"

subsection \<open>Staleness\<close>

definition needsDataFetch :: "env \<Rightarrow> world \<Rightarrow> string \<Rightarrow> bool" where
  "needsDataFetch e w lang =
     (if \<not> onLine e then False
      else if lastKnownLanguage w \<noteq> None \<and> lastKnownLanguage w \<noteq> Some (currentLanguage e) then True
      else if list_ex (\<lambda>key. falsy (localStorage w key))
                [quotesKey lang, timestampKey lang, countKey lang] then True
      else
        let storedCount = orZero (parseIntItem (localStorage w (countKey lang)));
            storedTimestamp = localStorage w (timestampKey lang);
            timeDiff = map_option (\<lambda>t. now e - t)
                         (case storedTimestamp of None \<Rightarrow> Some 0 | Some s \<Rightarrow> Date_getTime e s)
        in if storedCount = 0 then greaterThan timeDiff ONE_DAY
           else greaterThan timeDiff (if storedCount < MIN_QUOTES_FOR_LANG then ONE_DAY else 7 * ONE_DAY))"

subsection \<open>The target language\<close>

text \<open>\<^verbatim>\<open>metadata?.files?.[`${lang}.json`]\<close>\<close>

definition langFileOf :: "metadata option \<Rightarrow> string \<Rightarrow> langfile option" where
  "langFileOf md lang =
     (case md of None \<Rightarrow> None
      | Some m \<Rightarrow> (case files m of None \<Rightarrow> None | Some fs \<Rightarrow> fs (fileName lang)))"

definition getTargetLanguage :: "string \<Rightarrow> metadata option \<Rightarrow> string" where
  "getTargetLanguage currentLang md =
     (if currentLang = ''en'' then ''en''
      else case langFileOf md currentLang of
             None \<Rightarrow> ''en''
           | Some langFile \<Rightarrow>
               (case count langFile of
                  None \<Rightarrow> ''en''
                | Some c \<Rightarrow> if c \<ge> MIN_QUOTES_FOR_LANG then currentLang else ''en''))"

subsection \<open>Providers\<close>

text \<open>
  Every \<^verbatim>\<open>fetch\<close> is appended to the log of requests, whatever its outcome.
  \<^verbatim>\<open>fetchMetadata\<close> and \<^verbatim>\<open>fetchQuotes\<close> do not look at \<^verbatim>\<open>response.ok\<close>; the three
  single-quote providers do. (The identifier that \<^verbatim>\<open>fetchDummyJsonQuote\<close> draws at random
  is part of what its responder answers.)
\<close>

definition logged :: "request \<Rightarrow> world \<Rightarrow> world" where
  "logged r w = w\<lparr>fetchLog := fetchLog w @ [r]\<rparr>"

definition fetchMetadata :: "env \<Rightarrow> world \<Rightarrow> (error + metadata option) \<times> world" where
  "fetchMetadata e w =
     (case metadataApi e (fetchLog w) of
        Rejected \<Rightarrow> (Inl NetworkError, logged GetMetadata w)
      | Http ok body \<Rightarrow>
          (case body of
             None \<Rightarrow> (Inl BodyError, logged GetMetadata w)
           | Some data \<Rightarrow> (Inr data, logged GetMetadata w)))"

definition fetchQuotes :: "env \<Rightarrow> string \<Rightarrow> world \<Rightarrow> (error + quote list) \<times> world" where
  "fetchQuotes e lang w =
     (case quotesApi e (fetchLog w) lang of
        Rejected \<Rightarrow> (Inl NetworkError, logged (GetQuotes lang) w)
      | Http ok body \<Rightarrow>
          (case body of
             None \<Rightarrow> (Inl BodyError, logged (GetQuotes lang) w)
           | Some data \<Rightarrow> (Inr data, logged (GetQuotes lang) w)))"

text \<open>
  The shared shape of the three single-quote functions: reject on a failed request, on a
  status that is not ok, on a body that is not JSON and on the body \<^verbatim>\<open>null\<close>; otherwise
  normalise.
\<close>

definition okJson :: "raw_quote option response \<Rightarrow> (raw_quote \<Rightarrow> quote) \<Rightarrow> error + quote" where
  "okJson r normalise =
     (case r of
        Rejected \<Rightarrow> Inl NetworkError
      | Http ok body \<Rightarrow>
          if \<not> ok then Inl HttpError
          else (case body of
                  None \<Rightarrow> Inl BodyError
                | Some None \<Rightarrow> Inl NullError
                | Some (Some data) \<Rightarrow> Inr (normalise data)))"

definition fetchVercelQuote :: "env \<Rightarrow> world \<Rightarrow> (error + quote) \<times> world" where
  "fetchVercelQuote e w =
     (okJson (vercelApi e (fetchLog w))
        (\<lambda>data. \<lparr>quote = firstTruthy [raw_quote data, raw_text data, raw_content data] '''',
                 author = firstTruthy [raw_author data, raw_by data] ''Unknown''\<rparr>),
      logged GetVercel w)"

definition fetchProgrammingQuote :: "env \<Rightarrow> world \<Rightarrow> (error + quote) \<times> world" where
  "fetchProgrammingQuote e w =
     (okJson (programmingApi e (fetchLog w))
        (\<lambda>data. \<lparr>quote = firstTruthy [raw_quote data, raw_text data, raw_content data, raw_en data] '''',
                 author = firstTruthy [raw_author data, raw_by data] ''Unknown''\<rparr>),
      logged GetProgramming w)"

definition fetchDummyJsonQuote :: "env \<Rightarrow> world \<Rightarrow> (error + quote) \<times> world" where
  "fetchDummyJsonQuote e w =
     (okJson (dummyjsonApi e (fetchLog w))
        (\<lambda>data. \<lparr>quote = firstTruthy [raw_quote data, raw_text data, raw_content data] '''',
                 author = firstTruthy [raw_author data, raw_by data] ''Unknown''\<rparr>),
      logged GetDummyJson w)"

text \<open>
  The loop of \<^verbatim>\<open>fetchAlternativeQuote\<close> over its array \<^verbatim>\<open>apis\<close>: an exception of one
  provider, or a quote with an empty text or author, moves on to the next one.
\<close>

fun tryApis :: "env \<Rightarrow> (env \<Rightarrow> world \<Rightarrow> (error + quote) \<times> world) list \<Rightarrow> world
    \<Rightarrow> (error + quote) \<times> world" where
  "tryApis e [] w = (Inl AllAlternativesFailed, w)"
| "tryApis e (fn # apis) w =
     (case fn e w of
        (Inr q, w') \<Rightarrow> if quote q \<noteq> [] \<and> author q \<noteq> [] then (Inr q, w') else tryApis e apis w'
      | (Inl error, w') \<Rightarrow> tryApis e apis w')"

definition fetchAlternativeQuote :: "env \<Rightarrow> world \<Rightarrow> (error + quote) \<times> world" where
  "fetchAlternativeQuote e w =
     tryApis e [fetchVercelQuote, fetchProgrammingQuote, fetchDummyJsonQuote] w"

subsection \<open>Writing and reading the cache\<close>

definition setItem :: "string \<Rightarrow> string \<Rightarrow> world \<Rightarrow> world" where
  "setItem key v w = w\<lparr>localStorage := (localStorage w)(key \<mapsto> v)\<rparr>"

text \<open>\<^verbatim>\<open>metadata.files?.[`${lang}.json`]?.count || quotes.length\<close>\<close>

definition quoteCountOf :: "metadata \<Rightarrow> string \<Rightarrow> quote list \<Rightarrow> int" where
  "quoteCountOf m lang quotes =
     (case langFileOf (Some m) lang of
        None \<Rightarrow> int (length quotes)
      | Some f \<Rightarrow>
          (case count f of
             None \<Rightarrow> int (length quotes)
           | Some c \<Rightarrow> if c = 0 then int (length quotes) else c))"

text \<open>The text stored for \<^verbatim>\<open>metadata.lastUpdated\<close>; a missing member is stored as \<^verbatim>\<open>undefined\<close>.\<close>

definition lastUpdatedText :: "metadata \<Rightarrow> string" where
  "lastUpdatedText m = (case lastUpdated m of None \<Rightarrow> ''undefined'' | Some s \<Rightarrow> s)"

definition storeQuotesData :: "env \<Rightarrow> string \<Rightarrow> quote list \<Rightarrow> metadata option \<Rightarrow> world \<Rightarrow> world" where
  "storeQuotesData e lang quotes md w =
     (let timestamp = toISOString e (now e);
          w1 = setItem (quotesKey lang) (JSON_stringify e quotes) w;
          w2 = setItem (timestampKey lang) timestamp w1
      in case md of
           None \<Rightarrow> w2
         | Some m \<Rightarrow>
             let w3 = setItem metadataTimestampKey (lastUpdatedText m) w2;
                 quoteCount = quoteCountOf m lang quotes
             in setItem (countKey lang) (Number_toString e quoteCount) w3)"

definition storeNoDataInfo :: "env \<Rightarrow> string \<Rightarrow> metadata option \<Rightarrow> world \<Rightarrow> world" where
  "storeNoDataInfo e lang md w =
     (let timestamp = toISOString e (now e);
          w1 = setItem (quotesKey lang) (JSON_stringify e []) w;
          w2 = setItem (timestampKey lang) timestamp w1;
          w3 = setItem (countKey lang) ''0'' w2
      in case md of
           None \<Rightarrow> w3
         | Some m \<Rightarrow> setItem metadataTimestampKey (lastUpdatedText m) w3)"

definition getStoredQuotes :: "env \<Rightarrow> world \<Rightarrow> string \<Rightarrow> error + cached" where
  "getStoredQuotes e w lang =
     (case localStorage w (quotesKey lang) of
        None \<Rightarrow> Inr JNull
      | Some storedQuotes \<Rightarrow>
          if storedQuotes = [] then Inr JNull
          else (case JSON_parse e storedQuotes of
                  None \<Rightarrow> Inl JsonSyntaxError
                | Some v \<Rightarrow> Inr v))"

text \<open>
  The three \<^verbatim>\<open>setItem\<close> lines that follow each successful \<^verbatim>\<open>fetchAlternativeQuote\<close> inside
  the pipeline: the single quote is cached under \<open>lang\<close> with the count \<^verbatim>\<open>"1"\<close>.
\<close>

definition storeAlternative :: "env \<Rightarrow> string \<Rightarrow> quote list \<Rightarrow> world \<Rightarrow> world" where
  "storeAlternative e lang quotes w =
     (let timestamp = toISOString e (now e);
          w1 = setItem (quotesKey lang) (JSON_stringify e quotes) w;
          w2 = setItem (timestampKey lang) timestamp w1
      in setItem (countKey lang) ''1'' w2)"

subsection \<open>The orchestrator\<close>

text \<open>
  Lines 275 to 291, the body of the inner \<^verbatim>\<open>try\<close> of the refresh branch: catalogue,
  target language, the no-data marker of the requested language, the quotes of the target,
  the purge. An exception leaves the writes made before it in place.
\<close>

definition bulkRefresh :: "env \<Rightarrow> world \<Rightarrow> (error + quote list) \<times> world" where
  "bulkRefresh e w =
     (case fetchMetadata e w of
        (Inl error, w1) \<Rightarrow> (Inl error, w1)
      | (Inr md, w1) \<Rightarrow>
          let targetLang = getTargetLanguage (currentLanguage e) md in
          (case md of
             None \<Rightarrow> (Inl NullError, w1)
           | Some m \<Rightarrow>
               let currentLangCount =
                     (case langFileOf md (currentLanguage e) of
                        None \<Rightarrow> 0
                      | Some f \<Rightarrow> orZero (count f));
                   w2 = (if currentLangCount = 0 \<and> currentLanguage e \<noteq> ''en''
                         then storeNoDataInfo e (currentLanguage e) md w1 else w1)
               in (case fetchQuotes e targetLang w2 of
                     (Inl error, w3) \<Rightarrow> (Inl error, w3)
                   | (Inr quotes, w3) \<Rightarrow>
                       let w4 = storeQuotesData e targetLang quotes md w3;
                           keep = (if currentLanguage e \<noteq> [] then currentLanguage e else targetLang)
                       in (Inr quotes,
                           w4\<lparr>localStorage := clearOtherLanguageQuotes keep (localStorage w4)\<rparr>))))"

text \<open>Lines 273 to 309: the refresh branch with its fallback to the alternative providers.\<close>

definition refreshPath :: "env \<Rightarrow> world \<Rightarrow> (error + quote list) \<times> world" where
  "refreshPath e w =
     (case bulkRefresh e w of
        (Inr quotes, w1) \<Rightarrow> (Inr quotes, w1)
      | (Inl multilingualError, w1) \<Rightarrow>
          (case fetchAlternativeQuote e w1 of
             (Inr alternativeQuote, w2) \<Rightarrow>
               (Inr [alternativeQuote], storeAlternative e (currentLanguage e) [alternativeQuote] w2)
           | (Inl altError, w2) \<Rightarrow> (Inl altError, w2)))"

text \<open>
  Lines 317 to 340: the requested language has the count 0, so English is used. When no
  English quote is cached the catalogue and \<^verbatim>\<open>en.json\<close> are fetched, then the alternative
  providers; \<^verbatim>\<open>englishQuotes\<close> keeps its cached value when both fail.
\<close>

definition englishFallback :: "env \<Rightarrow> world \<Rightarrow> (error + quote list) \<times> world" where
  "englishFallback e w =
     (case getStoredQuotes e w ''en'' of
        Inl error \<Rightarrow> (Inl error, w)
      | Inr englishQuotes \<Rightarrow>
          if englishQuotes = JNull \<or> englishQuotes = JArray [] then
            (let orFallback = (\<lambda>v. case v of JNull \<Rightarrow> [FALLBACK_QUOTE] | JArray qs \<Rightarrow> qs);
                 alternative = (\<lambda>w1.
                   case fetchAlternativeQuote e w1 of
                     (Inr alternativeQuote, w2) \<Rightarrow>
                       (Inr [alternativeQuote], storeAlternative e ''en'' [alternativeQuote] w2)
                   | (Inl altError, w2) \<Rightarrow> (Inr (orFallback englishQuotes), w2))
             in case fetchMetadata e w of
                  (Inl error, w1) \<Rightarrow> alternative w1
                | (Inr md, w1) \<Rightarrow>
                    (case fetchQuotes e ''en'' w1 of
                       (Inl error, w2) \<Rightarrow> alternative w2
                     | (Inr fetched, w2) \<Rightarrow> (Inr fetched, storeQuotesData e ''en'' fetched md w2)))
          else (case englishQuotes of JNull \<Rightarrow> (Inr [FALLBACK_QUOTE], w) | JArray qs \<Rightarrow> (Inr qs, w)))"

text \<open>Lines 313 to 360: the branch that uses the stored data.\<close>

definition cachedPath :: "env \<Rightarrow> world \<Rightarrow> (error + quote list) \<times> world" where
  "cachedPath e w =
     (let storedCount = orZero (parseIntItem (localStorage w (countKey (currentLanguage e)))) in
      if storedCount = 0 \<and> currentLanguage e \<noteq> ''en'' then englishFallback e w
      else
        (case getStoredQuotes e w (currentLanguage e) of
           Inl error \<Rightarrow> (Inl error, w)
         | Inr storedQuotes \<Rightarrow>
             (case storedQuotes of
                JArray (q # qs) \<Rightarrow> (Inr (q # qs), w)
              | _ \<Rightarrow>
                (case fetchAlternativeQuote e w of
                   (Inr alternativeQuote, w1) \<Rightarrow>
                     (Inr [alternativeQuote],
                      storeAlternative e (currentLanguage e) [alternativeQuote] w1)
                 | (Inl altError, w1) \<Rightarrow> (Inr [FALLBACK_QUOTE], w1)))))"

text \<open>
  Lines 264 to 361, the body of the outer \<^verbatim>\<open>try\<close>. The variable \<^verbatim>\<open>languageChanged\<close> is
  computed and never read; \<^verbatim>\<open>lastKnownLanguage\<close> is assigned before \<^verbatim>\<open>needsDataFetch\<close> runs.
\<close>

definition tryBody :: "env \<Rightarrow> bool \<Rightarrow> world \<Rightarrow> (error + quote list) \<times> world" where
  "tryBody e forceRefresh w =
     (let languageChanged =
            (lastKnownLanguage w \<noteq> None \<and> lastKnownLanguage w \<noteq> Some (currentLanguage e));
          w0 = w\<lparr>lastKnownLanguage := Some (currentLanguage e)\<rparr>;
          shouldFetch = (forceRefresh \<or> needsDataFetch e w0 (currentLanguage e))
      in if shouldFetch then refreshPath e w0 else cachedPath e w0)"

text \<open>Lines 362 to 380, the handler of the outer \<^verbatim>\<open>try\<close>.\<close>

definition outerHandler :: "env \<Rightarrow> world \<Rightarrow> (error + quote list) \<times> world" where
  "outerHandler e w =
     (case getStoredQuotes e w (currentLanguage e) of
        Inl error \<Rightarrow> (Inl error, w)
      | Inr current \<Rightarrow>
          (case (if current \<noteq> JNull then Inr current else getStoredQuotes e w ''en'') of
             Inl error \<Rightarrow> (Inl error, w)
           | Inr quotes \<Rightarrow>
               (case quotes of
                  JArray (q # qs) \<Rightarrow> (Inr (q # qs), w)
                | _ \<Rightarrow>
                  (case fetchAlternativeQuote e w of
                     (Inr alternativeQuote, w1) \<Rightarrow> (Inr [alternativeQuote], w1)
                   | (Inl altError, w1) \<Rightarrow> (Inr [FALLBACK_QUOTE], w1)))))"

definition getQuotesForLanguage :: "env \<Rightarrow> bool \<Rightarrow> world \<Rightarrow> (error + quote list) \<times> world" where
  "getQuotesForLanguage e forceRefresh w =
     (case tryBody e forceRefresh w of
        (Inr quotes, w1) \<Rightarrow> (Inr quotes, w1)
      | (Inl error, w1) \<Rightarrow> outerHandler e w1)"

subsection \<open>An environment for the examples\<close>

text \<open>
  The examples run the functions in a small concrete environment. Its \<^verbatim>\<open>JSON.stringify\<close>
  writes a list of quotes the way the browser does when no string needs an escape; its
  \<^verbatim>\<open>JSON.parse\<close> and its \<^verbatim>\<open>Date\<close> know the texts that occur in the examples, with the
  values the browser gives them, and reject every other text. The text of an instant is
  given for the two instants at which an example writes the cache, and a number is
  printed in decimal digits, as the browser prints the counts of the examples. Every
  request fails unless an example says otherwise.
\<close>

definition exampleQuote :: quote where
  "exampleQuote = \<lparr>quote = ''X'', author = ''Y''\<rparr>"

fun commaSeparated :: "string list \<Rightarrow> string" where
  "commaSeparated [] = []"
| "commaSeparated [x] = x"
| "commaSeparated (x # y # ys) = x @ '','' @ commaSeparated (y # ys)"

definition quoteText :: "quote \<Rightarrow> string" where
  \<open>quoteText q = ''{"quote":"'' @ quote q @ ''","author":"'' @ author q @ ''"}''\<close>

definition exampleStringify :: "quote list \<Rightarrow> string" where
  "exampleStringify qs = ''['' @ commaSeparated (map quoteText qs) @ '']''"

definition exampleParse :: "string \<Rightarrow> cached option" where
  \<open>exampleParse s =
     (if s = ''null'' then Some JNull
      else if s = ''[]'' then Some (JArray [])
      else if s = ''[{"quote":"X","author":"Y"}]'' then Some (JArray [exampleQuote])
      else None)\<close>

definition exampleGetTime :: "string \<Rightarrow> int option" where
  "exampleGetTime s =
     (if s = ''2024-01-01T00:00:00.000Z'' then Some 1704067200000
      else if s = ''2024-01-02T00:00:00.000Z'' then Some 1704153600000
      else None)"

definition exampleISO :: "int \<Rightarrow> string" where
  "exampleISO t =
     (if t = 1704067200000 then ''2024-01-01T00:00:00.000Z''
      else if t = 1704153600000 then ''2024-01-02T00:00:00.000Z''
      else ''1970-01-01T00:00:00.000Z'')"

definition exampleEnv :: env where
  "exampleEnv =
     \<lparr>currentLanguage = ''fr'', onLine = True, now = 1704153600000,
      JSON_parse = exampleParse, JSON_stringify = exampleStringify,
      Date_getTime = exampleGetTime, toISOString = exampleISO, Number_toString = decimal,
      metadataApi = (\<lambda>h. Rejected), quotesApi = (\<lambda>h lang. Rejected),
      vercelApi = (\<lambda>h. Rejected), programmingApi = (\<lambda>h. Rejected),
      dummyjsonApi = (\<lambda>h. Rejected)\<rparr>"

definition emptyWorld :: world where
  "emptyWorld = \<lparr>localStorage = Map.empty, lastKnownLanguage = None, fetchLog = []\<rparr>"

text \<open>A catalogue that lists \<^verbatim>\<open>fr.json\<close> with the given count.\<close>

definition catalogue :: "int \<Rightarrow> metadata" where
  "catalogue c =
     \<lparr>lastUpdated = Some ''2024-01-01'',
      files = Some [''fr.json'' \<mapsto> \<lparr>count = Some c\<rparr>]\<rparr>"

text \<open>A provider body that only has the members \<^verbatim>\<open>en\<close> and \<^verbatim>\<open>by\<close>.\<close>

definition rawEn :: raw_quote where
  "rawEn = \<lparr>raw_quote = None, raw_text = None, raw_content = None, raw_en = Some ''X'',
            raw_author = None, raw_by = Some ''Y''\<rparr>"

text \<open>The first provider is unreachable, the other two answer.\<close>

definition secondProviderEnv :: env where
  "secondProviderEnv =
     exampleEnv\<lparr>programmingApi := (\<lambda>h. Http True (Some (Some rawEn))),
                dummyjsonApi := (\<lambda>h. Http True (Some (Some rawEn)))\<rparr>"

text \<open>
  A store that holds the three keys of one language, fetched at
  \<^verbatim>\<open>2024-01-01T00:00:00.000Z\<close>, which is the instant 1704067200000; that language was the
  last one observed.
\<close>

definition cachedWorld :: "string \<Rightarrow> string \<Rightarrow> string \<Rightarrow> world" where
  "cachedWorld lang quotesText countText =
     \<lparr>localStorage =
        [''quotes_'' @ lang \<mapsto> quotesText,
         ''quotes_'' @ lang @ ''_timestamp'' \<mapsto> ''2024-01-01T00:00:00.000Z'',
         ''quotes_'' @ lang @ ''_count'' \<mapsto> countText],
      lastKnownLanguage = Some lang, fetchLog = []\<rparr>"

definition atTime :: "int \<Rightarrow> env" where
  "atTime t = exampleEnv\<lparr>now := t\<rparr>"

text \<open>Offline, seven days and a millisecond after the cache was written.\<close>

definition offlineStale :: env where
  "offlineStale = exampleEnv\<lparr>onLine := False, now := 1704067200000 + 604800001\<rparr>"

text \<open>
  A store left by two languages of which one code extends the other: \<^verbatim>\<open>zh\<close> with quotes
  and \<^verbatim>\<open>zh_TW\<close> with the no-data marker, beside English.
\<close>

definition chineseStore :: storage where
  \<open>chineseStore =
     [''quotes_zh'' \<mapsto> ''[{"quote":"X","author":"Y"}]'',
      ''quotes_zh_timestamp'' \<mapsto> ''2024-01-02T00:00:00.000Z'',
      ''quotes_zh_count'' \<mapsto> ''150'',
      ''quotes_zh_TW'' \<mapsto> ''[]'',
      ''quotes_zh_TW_timestamp'' \<mapsto> ''2024-01-01T00:00:00.000Z'',
      ''quotes_zh_TW_count'' \<mapsto> ''0'',
      ''quotes_en'' \<mapsto> ''[{"quote":"X","author":"Y"}]'',
      ''quotes_en_timestamp'' \<mapsto> ''2024-01-01T00:00:00.000Z'',
      ''quotes_en_count'' \<mapsto> ''150'',
      ''quotes_metadata_timestamp'' \<mapsto> ''2024-01-01'',
      ''motivationalQuotesVisible'' \<mapsto> ''true'']\<close>

text \<open>A catalogue that lists \<^verbatim>\<open>de.json\<close> with the count 0.\<close>

definition germanZero :: metadata where
  "germanZero =
     \<lparr>lastUpdated = Some ''2024-01-01'',
      files = Some [''de.json'' \<mapsto> \<lparr>count = Some 0\<rparr>]\<rparr>"




text \<open>
  A store left by German and English, German being the last language observed; the
  current language of the example environments is French.
\<close>

definition germanWorld :: world where
  \<open>germanWorld =
     \<lparr>localStorage =
        [''quotes_de'' \<mapsto> ''[]'',
         ''quotes_de_timestamp'' \<mapsto> ''2024-01-01T00:00:00.000Z'',
         ''quotes_de_count'' \<mapsto> ''0'',
         ''quotes_en'' \<mapsto> ''[{"quote":"X","author":"Y"}]'',
         ''quotes_en_timestamp'' \<mapsto> ''2024-01-01T00:00:00.000Z'',
         ''quotes_en_count'' \<mapsto> ''150''],
      lastKnownLanguage = Some ''de'', fetchLog = []\<rparr>\<close>

text \<open>Offline, with Spanish as the current language.\<close>

definition offlineSpanish :: env where
  "offlineSpanish = exampleEnv\<lparr>currentLanguage := ''es'', onLine := False\<rparr>"

text \<open>
  French has the no-data marker, written more than a day before the call, and English
  is cached.
\<close>

definition markerWorld :: world where
  \<open>markerWorld =
     \<lparr>localStorage =
        [''quotes_fr'' \<mapsto> ''[]'',
         ''quotes_fr_timestamp'' \<mapsto> ''2024-01-01T00:00:00.000Z'',
         ''quotes_fr_count'' \<mapsto> ''0'',
         ''quotes_en'' \<mapsto> ''[{"quote":"X","author":"Y"}]'',
         ''quotes_en_timestamp'' \<mapsto> ''2024-01-01T00:00:00.000Z'',
         ''quotes_en_count'' \<mapsto> ''150''],
      lastKnownLanguage = Some ''fr'', fetchLog = []\<rparr>\<close>

section \<open>Properties\<close>

subsection \<open>The target language\<close>

text \<open>
  Claim C7. Whatever the catalogue, English resolves to English. Another language \<open>L\<close>
  resolves to itself exactly when the catalogue has a \<^verbatim>\<open>files\<close> entry for \<open>L.json\<close> whose
  count is at least 100, and to English in every other case: no catalogue, no \<^verbatim>\<open>files\<close>,
  no entry, no count, or a smaller count.
\<close>

theorem getTargetLanguage_resolves:
  "getTargetLanguage ''en'' md = ''en'' \<and>
   (L \<noteq> ''en'' \<longrightarrow>
      (getTargetLanguage L md = L \<longleftrightarrow>
         (\<exists>m fs f c. md = Some m \<and> files m = Some fs \<and> fs (L @ ''.json'') = Some f
            \<and> count f = Some c \<and> 100 \<le> c))
      \<and> (getTargetLanguage L md \<noteq> L \<longrightarrow> getTargetLanguage L md = ''en''))"
  by (auto simp: getTargetLanguage_def langFileOf_def fileName_def MIN_QUOTES_FOR_LANG_def
      split: option.splits)

theorem getTargetLanguage_resolves_witness:
  "getTargetLanguage ''en'' (Some (catalogue 150)) = ''en''
   \<and> getTargetLanguage ''fr'' (Some (catalogue 150)) = ''fr''
   \<and> getTargetLanguage ''fr'' (Some (catalogue 99)) = ''en''
   \<and> getTargetLanguage ''fr'' None = ''en''"
proof -
  have ne: "''fr'' \<noteq> ''en''" by simp
  have big: "\<exists>m fs f c. Some (catalogue 150) = Some m \<and> files m = Some fs
      \<and> fs (''fr'' @ ''.json'') = Some f \<and> count f = Some c \<and> 100 \<le> c"
    by (simp add: catalogue_def)
  have small: "\<not> (\<exists>m fs f c. Some (catalogue 99) = Some m \<and> files m = Some fs
      \<and> fs (''fr'' @ ''.json'') = Some f \<and> count f = Some c \<and> 100 \<le> c)"
    by (simp add: catalogue_def)
  have none: "\<not> (\<exists>m fs f c. (None :: metadata option) = Some m \<and> files m = Some fs
      \<and> fs (''fr'' @ ''.json'') = Some f \<and> count f = Some c \<and> 100 \<le> c)"
    by simp
  from getTargetLanguage_resolves [of "Some (catalogue 150)" "''fr''"] ne big
  have a: "getTargetLanguage ''en'' (Some (catalogue 150)) = ''en''"
    and b: "getTargetLanguage ''fr'' (Some (catalogue 150)) = ''fr''" by blast+
  from getTargetLanguage_resolves [of "Some (catalogue 99)" "''fr''"] ne small
  have c: "getTargetLanguage ''fr'' (Some (catalogue 99)) = ''en''" by blast
  from getTargetLanguage_resolves [of None "''fr''"] ne none
  have d: "getTargetLanguage ''fr'' None = ''en''" by blast
  from a b c d show ?thesis by simp
qed

subsection \<open>The chain of alternative providers\<close>

text \<open>
  Claim C5. Write \<open>a\<close>, \<open>b\<close>, \<open>c\<close> for the outcomes of the vercel, programming and dummyjson
  functions, each called in the state its predecessor left, and call an outcome usable
  when it is a quote whose text and author are both non-empty. Then
  \<^verbatim>\<open>fetchAlternativeQuote\<close> ends with the first usable one of \<open>a\<close>, \<open>b\<close>, \<open>c\<close>, in this order,
  and with it the state right after that provider: the request log has grown by the
  requests up to that provider and by nothing else, so a later provider was not called.
  When none is usable it raises \<^verbatim>\<open>All alternative quote APIs failed\<close>.
\<close>

theorem fetchAlternativeQuote_first_usable:
  "let a = fetchVercelQuote e w;
       b = fetchProgrammingQuote e (snd a);
       c = fetchDummyJsonQuote e (snd b);
       usable = (\<lambda>r. case fst r of Inl error \<Rightarrow> False | Inr q \<Rightarrow> quote q \<noteq> [] \<and> author q \<noteq> [])
   in fetchAlternativeQuote e w =
        (if usable a then a else if usable b then b else if usable c then c
         else (Inl AllAlternativesFailed, snd c))
      \<and> snd a = w\<lparr>fetchLog := fetchLog w @ [GetVercel]\<rparr>
      \<and> snd b = w\<lparr>fetchLog := fetchLog w @ [GetVercel, GetProgramming]\<rparr>
      \<and> snd c = w\<lparr>fetchLog := fetchLog w @ [GetVercel, GetProgramming, GetDummyJson]\<rparr>"
  by (simp add: Let_def fetchAlternativeQuote_def fetchVercelQuote_def fetchProgrammingQuote_def
      fetchDummyJsonQuote_def logged_def split: sum.splits)

theorem fetchAlternativeQuote_first_usable_witness:
  "fetchAlternativeQuote secondProviderEnv emptyWorld =
     (Inr \<lparr>quote = ''X'', author = ''Y''\<rparr>, emptyWorld\<lparr>fetchLog := [GetVercel, GetProgramming]\<rparr>)"
  using fetchAlternativeQuote_first_usable [of secondProviderEnv emptyWorld]
  by (simp add: Let_def fetchVercelQuote_def fetchProgrammingQuote_def fetchDummyJsonQuote_def
      okJson_def logged_def secondProviderEnv_def exampleEnv_def emptyWorld_def rawEn_def)

subsection \<open>Numbers as text\<close>

text \<open>Reading back a count that was written in decimal digits gives the count.\<close>

lemma digitOf_digit: "d < 10 \<Longrightarrow> digitOf 10 (char_of (48 + d)) = Some d"
  by (simp add: digitOf_def Let_def)

lemma digits_head:
  "\<exists>(d::nat) cs. digits n = char_of (48 + d) # cs \<and> d < 10 \<and> (d = 0 \<longrightarrow> n = 0 \<and> cs = [])"
proof (induction n rule: digits.induct)
  case (1 n)
  show ?case
  proof (cases "n < 10")
    case True
    then show ?thesis
      by (subst digits.simps) (intro exI [of _ n] exI [of _ "[]"], simp)
  next
    case False
    with 1 obtain d :: nat and cs where h: "digits (n div 10) = char_of (48 + d) # cs" "d < 10"
      "d = 0 \<longrightarrow> n div 10 = 0 \<and> cs = []" by blast
    from False have "n div 10 \<noteq> 0" by simp
    with h have "d \<noteq> 0" by blast
    moreover from False h have "digits n = char_of (48 + d) # (cs @ [char_of (48 + n mod 10)])"
      by (subst digits.simps) simp
    ultimately show ?thesis using h(2) by blast
  qed
qed

lemma readDigits_digits:
  "foldl (\<lambda>a d. a * 10 + d) a (readDigits 10 (digits n @ rest))
     = foldl (\<lambda>a d. a * 10 + d) (a * 10 ^ length (digits n) + n) (readDigits 10 rest)"
proof (induction n arbitrary: a rest rule: digits.induct)
  case (1 n)
  show ?case
  proof (cases "n < 10")
    case True
    then show ?thesis by (subst (1 2) digits.simps) (simp add: digitOf_digit)
  next
    case False
    have m: "n mod 10 < 10" by simp
    have "foldl (\<lambda>a d. a * 10 + d) a (readDigits 10 (digits n @ rest))
        = foldl (\<lambda>a d. a * 10 + d) a
            (readDigits 10 (digits (n div 10) @ (char_of (48 + n mod 10) # rest)))"
      using False by (subst digits.simps) simp
    also have "\<dots> = foldl (\<lambda>a d. a * 10 + d) (a * 10 ^ length (digits (n div 10)) + n div 10)
            (readDigits 10 (char_of (48 + n mod 10) # rest))"
      using 1 [OF False] by simp
    also have "\<dots> = foldl (\<lambda>a d. a * 10 + d)
            ((a * 10 ^ length (digits (n div 10)) + n div 10) * 10 + n mod 10) (readDigits 10 rest)"
      by (simp add: digitOf_digit [OF m])
    also have "(a * 10 ^ length (digits (n div 10)) + n div 10) * 10 + n mod 10
        = a * 10 ^ length (digits n) + n"
      using False by (subst (2) digits.simps) (simp add: algebra_simps)
    finally show ?thesis .
  qed
qed

lemma parseInt_digits: "parseInt (digits n) = Some (int n)"
proof -
  obtain d :: nat and cs where h: "digits n = char_of (48 + d) # cs" "d < 10" "d = 0 \<longrightarrow> n = 0 \<and> cs = []"
    using digits_head by blast
  let ?c = "char_of (48 + d) :: char"
  have oc: "(of_char ?c :: nat) = 48 + d" using h(2) by simp
  have ws: "\<not> isWhiteSpace ?c" using h(2) by (simp add: isWhiteSpace_def Let_def oc del: of_char_of)
  have sg: "?c \<noteq> CHR ''-''" "?c \<noteq> CHR ''+''"
    using oc h(2) by (auto simp del: of_char_of)
  have s1: "stripSign (dropWhile isWhiteSpace (digits n)) = (False, digits n)"
    using ws sg by (simp add: h(1) stripSign_def)
  have s2: "stripHexPrefix (digits n) = (10, digits n)"
  proof (cases "d = 0")
    case True
    with h show ?thesis by (simp add: stripHexPrefix_def)
  next
    case False
    then have "?c \<noteq> CHR ''0''" using oc h(2) by (auto simp del: of_char_of)
    then show ?thesis by (simp add: h(1) stripHexPrefix_def split: list.splits)
  qed
  have ne: "readDigits 10 (digits n) \<noteq> []"
    by (simp add: h(1) digitOf_digit [OF h(2)])
  have v: "foldl (\<lambda>a d. a * 10 + d) 0 (readDigits 10 (digits n)) = n"
    using readDigits_digits [of 0 n "[]"] by simp
  show ?thesis
    by (simp add: parseInt_def s1 s2 ne v)
qed

lemma parseInt_decimal: "parseInt (decimal i) = Some i"
proof (cases "i < 0")
  case False
  then show ?thesis by (simp add: decimal_def parseInt_digits)
next
  case True
  let ?m = "nat (- i)"
  obtain d :: nat and cs where h: "digits ?m = char_of (48 + d) # cs" "d < 10" "d = 0 \<longrightarrow> ?m = 0 \<and> cs = []"
    using digits_head by blast
  let ?c = "char_of (48 + d) :: char"
  have oc: "(of_char ?c :: nat) = 48 + d" using h(2) by simp
  have s1: "stripSign (dropWhile isWhiteSpace (decimal i)) = (True, digits ?m)"
    using True by (simp add: decimal_def stripSign_def isWhiteSpace_def)
  have s2: "stripHexPrefix (digits ?m) = (10, digits ?m)"
  proof (cases "d = 0")
    case True
    with h show ?thesis by (simp add: stripHexPrefix_def)
  next
    case False
    then have "?c \<noteq> CHR ''0''" using oc h(2) by (auto simp del: of_char_of)
    then show ?thesis by (simp add: h(1) stripHexPrefix_def split: list.splits)
  qed
  have ne: "readDigits 10 (digits ?m) \<noteq> []"
    by (simp add: h(1) digitOf_digit [OF h(2)])
  have v: "foldl (\<lambda>a d. a * 10 + d) 0 (readDigits 10 (digits ?m)) = ?m"
    using readDigits_digits [of 0 ?m "[]"] by simp
  show ?thesis
    using True by (simp add: parseInt_def s1 s2 ne v)
qed

lemma parseInt_examples:
  "parseInt ''150'' = Some 150" "parseInt ''5'' = Some 5" "parseInt ''0'' = Some 0"
  "parseInt ''abc'' = None" "parseInt ''1'' = Some 1"
  "parseInt (CHR 0xA0 # ''150'') = Some 150" "parseInt '' -0x1F'' = Some (- 31)"
  "parseInt ''12px'' = Some 12"
  by code_simp+

subsection \<open>Staleness\<close>

lemma key_distinct [simp]:
  "quotesKey lang \<noteq> timestampKey lang" "quotesKey lang \<noteq> countKey lang"
  "timestampKey lang \<noteq> countKey lang" "timestampKey lang \<noteq> quotesKey lang"
  "countKey lang \<noteq> quotesKey lang" "countKey lang \<noteq> timestampKey lang"
  by (simp_all add: quotesKey_def timestampKey_def countKey_def)

lemma needsDataFetch_age:
  assumes "onLine e"
    and "lastKnownLanguage w = None \<or> lastKnownLanguage w = Some (currentLanguage e)"
    and "localStorage w (quotesKey lang) = Some q" "q \<noteq> []"
    and "localStorage w (timestampKey lang) = Some ts" "ts \<noteq> []"
    and "localStorage w (countKey lang) = Some cs" "cs \<noteq> []"
  shows "needsDataFetch e w lang =
           greaterThan (map_option (\<lambda>t. now e - t) (Date_getTime e ts))
             (if orZero (parseInt cs) = 0 then ONE_DAY
              else if orZero (parseInt cs) < MIN_QUOTES_FOR_LANG then ONE_DAY else 7 * ONE_DAY)"
  using assms by (auto simp: needsDataFetch_def falsy_def parseIntItem_def Let_def)

lemma needsDataFetch_count_cong:
  assumes "localStorage w (countKey lang) = Some cs" and "cs \<noteq> []" and "cs' \<noteq> []"
    and "orZero (parseInt cs) = orZero (parseInt cs')"
  shows "needsDataFetch e w lang = needsDataFetch e (setItem (countKey lang) cs' w) lang"
  using assms by (simp add: needsDataFetch_def setItem_def falsy_def parseIntItem_def Let_def)

lemma needsDataFetch_empty_value:
  assumes "key \<in> {quotesKey lang, timestampKey lang, countKey lang}"
  shows "needsDataFetch e (setItem key [] w) lang
           = needsDataFetch e (w\<lparr>localStorage := (localStorage w)(key := None)\<rparr>) lang"
    and "needsDataFetch e (setItem key [] w) lang = onLine e"
  using assms by (auto simp: needsDataFetch_def setItem_def falsy_def Let_def)

lemma needsDataFetch_offline: "\<not> onLine e \<Longrightarrow> \<not> needsDataFetch e w lang"
  by (simp add: needsDataFetch_def)

text \<open>
  Claim C3, as the code has it. The claim gives the result of \<^verbatim>\<open>needsDataFetch\<close> from the
  age alone, for every call with the three keys present and the language unchanged; the
  function first returns \<^verbatim>\<open>false\<close> whenever the browser is offline, however old the cache
  (the counterexample below). What holds: offline the result is \<^verbatim>\<open>false\<close>, whatever the
  store; when the browser is online, the last observed language is unset or the current
  one, the three keys hold non-empty values and the stored timestamp is a date, the
  cache is stale exactly when its age in milliseconds exceeds the threshold, which is 24
  hours for the count 0, 24 hours for a count below 100 and 168 hours from 100 on; the
  count is \<^verbatim>\<open>parseInt(...) || 0\<close> of the stored text. The comparison is strict, so an age
  equal to the threshold is fresh and one millisecond more is stale.
\<close>

theorem needsDataFetch_threshold:
  "(\<not> onLine e \<longrightarrow> \<not> needsDataFetch e w lang)
   \<and> (onLine e
        \<and> (lastKnownLanguage w = None \<or> lastKnownLanguage w = Some (currentLanguage e))
        \<and> localStorage w (''quotes_'' @ lang) = Some q \<and> q \<noteq> []
        \<and> localStorage w (''quotes_'' @ lang @ ''_timestamp'') = Some ts \<and> ts \<noteq> []
        \<and> localStorage w (''quotes_'' @ lang @ ''_count'') = Some cs \<and> cs \<noteq> []
        \<and> Date_getTime e ts = Some t \<longrightarrow>
       (needsDataFetch e w lang \<longleftrightarrow>
          now e - t > (if orZero (parseInt cs) = 0 then 86400000
                       else if orZero (parseInt cs) < 100 then 86400000
                       else 604800000)))"
proof -
  have "needsDataFetch e w lang \<longleftrightarrow>
      now e - t > (if orZero (parseInt cs) = 0 then 86400000
                   else if orZero (parseInt cs) < 100 then 86400000
                   else 604800000)"
    if "onLine e"
      and "lastKnownLanguage w = None \<or> lastKnownLanguage w = Some (currentLanguage e)"
      and "localStorage w (''quotes_'' @ lang) = Some q" and "q \<noteq> []"
      and "localStorage w (''quotes_'' @ lang @ ''_timestamp'') = Some ts" and "ts \<noteq> []"
      and "localStorage w (''quotes_'' @ lang @ ''_count'') = Some cs" and "cs \<noteq> []"
      and "Date_getTime e ts = Some t"
  proof -
    have "needsDataFetch e w lang =
        greaterThan (Some (now e - t))
          (if orZero (parseInt cs) = 0 then ONE_DAY
           else if orZero (parseInt cs) < MIN_QUOTES_FOR_LANG then ONE_DAY else 7 * ONE_DAY)"
      using needsDataFetch_age [of e w lang q ts cs] that
      by (simp add: quotesKey_def timestampKey_def countKey_def)
    then show ?thesis
      by (simp add: greaterThan_def ONE_DAY_def MIN_QUOTES_FOR_LANG_def)
  qed
  with needsDataFetch_offline [of e w lang] show ?thesis by blast
qed

theorem needsDataFetch_threshold_witness:
  "\<not> needsDataFetch (atTime (1704067200000 + 604800000)) (cachedWorld ''fr'' ''[]'' ''150'') ''fr''
   \<and> needsDataFetch (atTime (1704067200000 + 604800001)) (cachedWorld ''fr'' ''[]'' ''150'') ''fr''
   \<and> \<not> needsDataFetch (atTime (1704067200000 + 86400000)) (cachedWorld ''fr'' ''[]'' ''5'') ''fr''
   \<and> needsDataFetch (atTime (1704067200000 + 86400001)) (cachedWorld ''fr'' ''[]'' ''5'') ''fr''
   \<and> \<not> needsDataFetch (atTime (1704067200000 + 86400000)) (cachedWorld ''fr'' ''[]'' ''0'') ''fr''
   \<and> needsDataFetch (atTime (1704067200000 + 86400001)) (cachedWorld ''fr'' ''[]'' ''0'') ''fr''
   \<and> \<not> needsDataFetch (atTime (1704067200000 + 86400001))
         (cachedWorld ''fr'' ''[]'' (CHR 0xA0 # ''150'')) ''fr''"
proof -
  have h: "onLine (atTime n)" "currentLanguage (atTime n) = ''fr''" "now (atTime n) = n"
    "Date_getTime (atTime n) ''2024-01-01T00:00:00.000Z'' = Some 1704067200000" for n
    by (simp_all add: atTime_def exampleEnv_def exampleGetTime_def)
  have k: "onLine (atTime n)
      \<and> (lastKnownLanguage (cachedWorld ''fr'' ''[]'' cs) = None
         \<or> lastKnownLanguage (cachedWorld ''fr'' ''[]'' cs) = Some (currentLanguage (atTime n)))
      \<and> localStorage (cachedWorld ''fr'' ''[]'' cs) (''quotes_'' @ ''fr'') = Some ''[]''
      \<and> ''[]'' \<noteq> []
      \<and> localStorage (cachedWorld ''fr'' ''[]'' cs) (''quotes_'' @ ''fr'' @ ''_timestamp'')
          = Some ''2024-01-01T00:00:00.000Z''
      \<and> ''2024-01-01T00:00:00.000Z'' \<noteq> []
      \<and> localStorage (cachedWorld ''fr'' ''[]'' cs) (''quotes_'' @ ''fr'' @ ''_count'') = Some cs
      \<and> cs \<noteq> []
      \<and> Date_getTime (atTime n) ''2024-01-01T00:00:00.000Z'' = Some 1704067200000"
    if "cs \<noteq> []" for cs n
    using that by (simp add: cachedWorld_def h)
  note t = needsDataFetch_threshold [THEN conjunct2, THEN mp, OF k]
  have ne: "''150'' \<noteq> []" "''5'' \<noteq> []" "''0'' \<noteq> []" "CHR 0xA0 # ''150'' \<noteq> []"
    by simp_all
  show ?thesis
    using t [OF ne(1), of "1704067200000 + 604800000"] t [OF ne(1), of "1704067200000 + 604800001"]
      t [OF ne(2), of "1704067200000 + 86400000"] t [OF ne(2), of "1704067200000 + 86400001"]
      t [OF ne(3), of "1704067200000 + 86400000"] t [OF ne(3), of "1704067200000 + 86400001"]
      t [OF ne(4), of "1704067200000 + 86400001"]
    by (simp add: h parseInt_examples orZero_def)
qed

text \<open>
  The counterexample to the claim as it was stated: offline, seven days and a millisecond
  after the cache was written, with the three keys in place and the language unchanged.
\<close>

theorem needsDataFetch_offline_counterexample:
  "lastKnownLanguage (cachedWorld ''fr'' ''[]'' ''150'') = Some (currentLanguage offlineStale)
   \<and> localStorage (cachedWorld ''fr'' ''[]'' ''150'') ''quotes_fr'' = Some ''[]''
   \<and> localStorage (cachedWorld ''fr'' ''[]'' ''150'') ''quotes_fr_timestamp''
        = Some ''2024-01-01T00:00:00.000Z''
   \<and> localStorage (cachedWorld ''fr'' ''[]'' ''150'') ''quotes_fr_count'' = Some ''150''
   \<and> Date_getTime offlineStale ''2024-01-01T00:00:00.000Z'' = Some 1704067200000
   \<and> now offlineStale - 1704067200000 > 604800000
   \<and> \<not> needsDataFetch offlineStale (cachedWorld ''fr'' ''[]'' ''150'') ''fr''"
  by (simp add: offlineStale_def exampleEnv_def cachedWorld_def exampleGetTime_def
      needsDataFetch_def)

text \<open>
  Claim C10, as the code has it. \<^verbatim>\<open>needsDataFetch\<close> has no failing step: reading a key,
  \<^verbatim>\<open>parseInt\<close>, the \<^verbatim>\<open>Date\<close> constructor and the comparisons return a value on every
  input, which is why it is a total function here. The claim has an empty string under
  a required key force a fetch; offline the function returns \<^verbatim>\<open>false\<close> before it reads
  any key (the counterexample below). What holds on malformed values: a non-empty count
  that \<^verbatim>\<open>parseInt\<close> cannot read gives the answer that the count \<^verbatim>\<open>"0"\<close> gives, and that
  is the 24 hour test when the browser is online, the language is unchanged, the other
  two keys hold non-empty values and the timestamp is a date. An empty string under one
  of the three keys gives the answer that the absent key gives, and this answer is the
  online flag: a fetch is forced exactly when the browser is online.
\<close>

theorem needsDataFetch_malformed:
  "(localStorage w (countKey lang) = Some cs \<and> cs \<noteq> [] \<and> parseInt cs = None \<longrightarrow>
      needsDataFetch e w lang = needsDataFetch e (setItem (countKey lang) ''0'' w) lang
      \<and> (onLine e
           \<and> (lastKnownLanguage w = None \<or> lastKnownLanguage w = Some (currentLanguage e))
           \<and> localStorage w (quotesKey lang) = Some q \<and> q \<noteq> []
           \<and> localStorage w (timestampKey lang) = Some ts \<and> ts \<noteq> []
           \<and> Date_getTime e ts = Some t \<longrightarrow>
          (needsDataFetch e w lang \<longleftrightarrow> now e - t > 86400000)))
   \<and> (key \<in> {quotesKey lang, timestampKey lang, countKey lang} \<longrightarrow>
        needsDataFetch e (setItem key [] w) lang
          = needsDataFetch e (w\<lparr>localStorage := (localStorage w)(key := None)\<rparr>) lang
        \<and> needsDataFetch e (setItem key [] w) lang = onLine e)"
proof -
  have "parseInt ''0'' = Some 0" by code_simp
  then have zero: "orZero (parseInt cs) = orZero (parseInt ''0'')" if "parseInt cs = None"
    using that by (simp add: orZero_def)
  have day: "needsDataFetch e w lang \<longleftrightarrow> now e - t > 86400000"
    if "localStorage w (countKey lang) = Some cs" "cs \<noteq> []" "parseInt cs = None" "onLine e"
      "lastKnownLanguage w = None \<or> lastKnownLanguage w = Some (currentLanguage e)"
      "localStorage w (quotesKey lang) = Some q" "q \<noteq> []"
      "localStorage w (timestampKey lang) = Some ts" "ts \<noteq> []" "Date_getTime e ts = Some t"
    using needsDataFetch_age [of e w lang q ts cs] that
    by (simp add: orZero_def greaterThan_def ONE_DAY_def)
  show ?thesis
    using needsDataFetch_count_cong [of w lang cs "''0''" e] zero day
      needsDataFetch_empty_value [of key lang e w]
    by blast
qed

theorem needsDataFetch_malformed_witness:
  "needsDataFetch (atTime (1704067200000 + 86400001)) (cachedWorld ''fr'' ''[]'' ''abc'') ''fr''
   \<and> \<not> needsDataFetch (atTime (1704067200000 + 86400000)) (cachedWorld ''fr'' ''[]'' ''abc'') ''fr''
   \<and> needsDataFetch exampleEnv (setItem (timestampKey ''fr'') [] (cachedWorld ''fr'' ''[]'' ''150'')) ''fr''"
proof -
  have h: "onLine (atTime n)" "currentLanguage (atTime n) = ''fr''" "now (atTime n) = n"
    "Date_getTime (atTime n) ''2024-01-01T00:00:00.000Z'' = Some 1704067200000" for n
    by (simp_all add: atTime_def exampleEnv_def exampleGetTime_def)
  have k: "localStorage (cachedWorld ''fr'' ''[]'' ''abc'') (countKey ''fr'') = Some ''abc''"
    "localStorage (cachedWorld ''fr'' ''[]'' ''abc'') (quotesKey ''fr'') = Some ''[]''"
    "localStorage (cachedWorld ''fr'' ''[]'' ''abc'') (timestampKey ''fr'')
       = Some ''2024-01-01T00:00:00.000Z''"
    "lastKnownLanguage (cachedWorld ''fr'' ''[]'' ''abc'') = Some ''fr''"
    by (simp_all add: cachedWorld_def countKey_def quotesKey_def timestampKey_def)
  have p1: "localStorage (cachedWorld ''fr'' ''[]'' ''abc'') (countKey ''fr'') = Some ''abc''
      \<and> ''abc'' \<noteq> [] \<and> parseInt ''abc'' = None"
    by (simp add: k parseInt_examples)
  have p2: "onLine (atTime n)
      \<and> (lastKnownLanguage (cachedWorld ''fr'' ''[]'' ''abc'') = None
          \<or> lastKnownLanguage (cachedWorld ''fr'' ''[]'' ''abc'') = Some (currentLanguage (atTime n)))
      \<and> localStorage (cachedWorld ''fr'' ''[]'' ''abc'') (quotesKey ''fr'') = Some ''[]''
      \<and> ''[]'' \<noteq> []
      \<and> localStorage (cachedWorld ''fr'' ''[]'' ''abc'') (timestampKey ''fr'')
          = Some ''2024-01-01T00:00:00.000Z''
      \<and> ''2024-01-01T00:00:00.000Z'' \<noteq> []
      \<and> Date_getTime (atTime n) ''2024-01-01T00:00:00.000Z'' = Some 1704067200000" for n
    by (simp add: h k)
  note r = needsDataFetch_malformed [of "cachedWorld ''fr'' ''[]'' ''abc''" "''fr''" "''abc''"
      _ "''[]''" "''2024-01-01T00:00:00.000Z''" 1704067200000 "countKey ''fr''",
      THEN conjunct1, THEN mp, OF p1, THEN conjunct2, THEN mp, OF p2]
  have a: "needsDataFetch (atTime (1704067200000 + 86400001)) (cachedWorld ''fr'' ''[]'' ''abc'') ''fr''"
    by (simp add: r h)
  have b: "\<not> needsDataFetch (atTime (1704067200000 + 86400000)) (cachedWorld ''fr'' ''[]'' ''abc'') ''fr''"
    by (simp add: r h)
  have mem: "timestampKey ''fr'' \<in> {quotesKey ''fr'', timestampKey ''fr'', countKey ''fr''}"
    by simp
  have on: "onLine exampleEnv" by (simp add: exampleEnv_def)
  note c = needsDataFetch_malformed [of "cachedWorld ''fr'' ''[]'' ''150''" "''fr''" "''150''"
      exampleEnv "''[]''" "''2024-01-01T00:00:00.000Z''" 1704067200000 "timestampKey ''fr''",
      THEN conjunct2, THEN mp, OF mem, THEN conjunct2]
  from a b c on show ?thesis by simp
qed

text \<open>
  The counterexample to the claim as it was stated: offline, an empty string under the
  timestamp key forces no fetch.
\<close>

theorem needsDataFetch_empty_offline_counterexample:
  "\<not> onLine offlineStale
   \<and> localStorage (setItem (timestampKey ''fr'') [] (cachedWorld ''fr'' ''[]'' ''150''))
        ''quotes_fr_timestamp'' = Some []
   \<and> \<not> needsDataFetch offlineStale
         (setItem (timestampKey ''fr'') [] (cachedWorld ''fr'' ''[]'' ''150'')) ''fr''"
  by (simp add: offlineStale_def exampleEnv_def timestampKey_def setItem_def needsDataFetch_def)

subsection \<open>The cache store\<close>

text \<open>
  Claim C8, at an input where the code departs from it. The test of
  \<^verbatim>\<open>clearOtherLanguageQuotes\<close> keeps every key that contains \<^verbatim>\<open>quotes_<exceptLang>\<close>
  anywhere. With \<^verbatim>\<open>zh\<close> kept, the three keys of the other language \<^verbatim>\<open>zh_TW\<close> contain
  \<^verbatim>\<open>quotes_zh\<close> and stay in the store, while those of English are removed.
\<close>

theorem clearOtherLanguageQuotes_keeps_longer_code:
  "clearOtherLanguageQuotes ''zh'' chineseStore ''quotes_zh_TW'' = Some ''[]''
   \<and> clearOtherLanguageQuotes ''zh'' chineseStore ''quotes_zh_TW_timestamp''
        = Some ''2024-01-01T00:00:00.000Z''
   \<and> clearOtherLanguageQuotes ''zh'' chineseStore ''quotes_zh_TW_count'' = Some ''0''
   \<and> clearOtherLanguageQuotes ''zh'' chineseStore ''quotes_en'' = None
   \<and> clearOtherLanguageQuotes ''zh'' chineseStore ''quotes_en_timestamp'' = None
   \<and> clearOtherLanguageQuotes ''zh'' chineseStore ''quotes_en_count'' = None"
  by (simp add: clearOtherLanguageQuotes_def chineseStore_def sublist_Cons_right)

text \<open>
  What \<^verbatim>\<open>clearOtherLanguageQuotes\<close> leaves alone and what it removes: the three keys of
  the kept language, the shared catalogue timestamp and every key outside the quote
  cache stay as they are; a key of the quote cache that does not contain
  \<^verbatim>\<open>quotes_<exceptLang>\<close> is removed.
\<close>

lemma clearOtherLanguageQuotes_frame:
  "clearOtherLanguageQuotes keep st (quotesKey keep) = st (quotesKey keep)"
  "clearOtherLanguageQuotes keep st (timestampKey keep) = st (timestampKey keep)"
  "clearOtherLanguageQuotes keep st (countKey keep) = st (countKey keep)"
  "clearOtherLanguageQuotes keep st metadataTimestampKey = st metadataTimestampKey"
  "\<not> prefix ''quotes_'' key \<Longrightarrow> clearOtherLanguageQuotes keep st key = st key"
proof -
  have "sublist (''quotes_'' @ keep) ((''quotes_'' @ keep) @ rest)" for rest
    by (rule sublist_append_rightI)
  from this [of "[]"] this [of "''_timestamp''"] this [of "''_count''"]
  show "clearOtherLanguageQuotes keep st (quotesKey keep) = st (quotesKey keep)"
    "clearOtherLanguageQuotes keep st (timestampKey keep) = st (timestampKey keep)"
    "clearOtherLanguageQuotes keep st (countKey keep) = st (countKey keep)"
    by (simp_all add: clearOtherLanguageQuotes_def quotesKey_def timestampKey_def countKey_def)
qed (simp_all add: clearOtherLanguageQuotes_def metadataTimestampKey_def)

lemma clearOtherLanguageQuotes_removes:
  "prefix ''quotes_'' key \<Longrightarrow> \<not> sublist (''quotes_'' @ keep) key \<Longrightarrow>
     key \<noteq> ''quotes_metadata_timestamp'' \<Longrightarrow> clearOtherLanguageQuotes keep st key = None"
  by (simp add: clearOtherLanguageQuotes_def)

lemma quotesKey_metadata:
  "lang \<noteq> ''metadata_timestamp'' \<Longrightarrow> quotesKey lang \<noteq> metadataTimestampKey"
  by (simp add: quotesKey_def metadataTimestampKey_def)

lemma countKey_metadata: "countKey lang \<noteq> metadataTimestampKey"
proof
  assume "countKey lang = metadataTimestampKey"
  then have "last (countKey lang) = last metadataTimestampKey" by simp
  then show False by (simp add: countKey_def metadataTimestampKey_def)
qed

lemma decimal_examples: "decimal 1 = ''1''" "decimal 0 = ''0''" "decimal 150 = ''150''"
  by code_simp+

text \<open>
  Claim C6, as the code has it. \<^verbatim>\<open>storeQuotesData\<close> takes the count of the catalogue through
  \<^verbatim>\<open>count || quotes.length\<close>, so the length of the list is stored not only when the
  catalogue has no count for the file but also when that count is 0 (the counterexample
  below stores 1 for a catalogue count of 0). What holds, for a catalogue that is
  supplied: let \<open>c\<close> be the catalogue's count for the file when there is one other than 0,
  and the length of the list otherwise. If \<^verbatim>\<open>JSON\<close> reads back the text it writes for
  the list, reading the language back gives the list that was stored; if the number \<open>c\<close>
  is printed in plain decimal digits, the count key holds these digits and the count
  read back is \<open>c\<close>. The language \<^verbatim>\<open>metadata_timestamp\<close> is left out: its quotes key is the
  key of the shared catalogue timestamp, which is written after the quotes.
\<close>

theorem storeQuotesData_roundtrip:
  assumes "lang \<noteq> ''metadata_timestamp''"
    and "JSON_stringify e quotes \<noteq> []"
    and "JSON_parse e (JSON_stringify e quotes) = Some (JArray quotes)"
    and "c = (case (case files m of
                      None \<Rightarrow> None
                    | Some fs \<Rightarrow> (case fs (lang @ ''.json'') of None \<Rightarrow> None | Some f \<Rightarrow> count f)) of
                None \<Rightarrow> int (length quotes)
              | Some n \<Rightarrow> if n = 0 then int (length quotes) else n)"
    and "Number_toString e c = decimal c"
  shows "getStoredQuotes e (storeQuotesData e lang quotes (Some m) w) lang = Inr (JArray quotes)
       \<and> localStorage (storeQuotesData e lang quotes (Some m) w) (''quotes_'' @ lang @ ''_count'')
           = Some (decimal c)
       \<and> orZero (parseIntItem (localStorage (storeQuotesData e lang quotes (Some m) w)
                                  (''quotes_'' @ lang @ ''_count''))) = c"
proof -
  have q: "localStorage (storeQuotesData e lang quotes (Some m) w) (quotesKey lang)
      = Some (JSON_stringify e quotes)"
    using quotesKey_metadata [OF assms(1)]
    by (simp add: storeQuotesData_def setItem_def Let_def)
  have "quoteCountOf m lang quotes = c"
    unfolding assms(4)
    by (simp add: quoteCountOf_def langFileOf_def fileName_def split: option.splits)
  then have k: "localStorage (storeQuotesData e lang quotes (Some m) w) (countKey lang)
      = Some (decimal c)"
    using assms(5) by (simp add: storeQuotesData_def setItem_def Let_def)
  have "getStoredQuotes e (storeQuotesData e lang quotes (Some m) w) lang = Inr (JArray quotes)"
    using assms(2,3) by (simp add: getStoredQuotes_def q)
  moreover have "orZero (parseIntItem (localStorage (storeQuotesData e lang quotes (Some m) w)
        (countKey lang))) = c"
    by (simp add: k parseIntItem_def parseInt_decimal orZero_def)
  ultimately show ?thesis using k by (simp add: countKey_def)
qed

theorem storeQuotesData_roundtrip_witness:
  "getStoredQuotes exampleEnv
      (storeQuotesData exampleEnv ''fr'' [exampleQuote] (Some (catalogue 150)) emptyWorld) ''fr''
     = Inr (JArray [exampleQuote])
   \<and> localStorage
        (storeQuotesData exampleEnv ''fr'' [exampleQuote] (Some (catalogue 150)) emptyWorld)
        ''quotes_fr_count'' = Some ''150''
   \<and> orZero (parseIntItem (localStorage
        (storeQuotesData exampleEnv ''fr'' [exampleQuote] (Some (catalogue 150)) emptyWorld)
        ''quotes_fr_count'')) = 150"
proof -
  have a: "''fr'' \<noteq> ''metadata_timestamp''" by simp
  have b: "JSON_stringify exampleEnv [exampleQuote] \<noteq> []"
    by (simp add: exampleEnv_def exampleStringify_def)
  have c: "JSON_parse exampleEnv (JSON_stringify exampleEnv [exampleQuote])
      = Some (JArray [exampleQuote])"
    by (simp add: exampleEnv_def exampleStringify_def quoteText_def exampleQuote_def
        exampleParse_def)
  have d: "(150 :: int) = (case (case files (catalogue 150) of
                      None \<Rightarrow> None
                    | Some fs \<Rightarrow> (case fs (''fr'' @ ''.json'') of None \<Rightarrow> None | Some f \<Rightarrow> count f)) of
                None \<Rightarrow> int (length [exampleQuote])
              | Some n \<Rightarrow> if n = 0 then int (length [exampleQuote]) else n)"
    by (simp add: catalogue_def)
  have p: "Number_toString exampleEnv 150 = decimal 150"
    by (simp add: exampleEnv_def)
  show ?thesis
    using storeQuotesData_roundtrip [OF a b c d p, of emptyWorld]
    by (simp add: decimal_examples parseIntItem_def parseInt_examples orZero_def)
qed

theorem storeQuotesData_zero_count_counterexample:
  "(case files germanZero of
      None \<Rightarrow> None
    | Some fs \<Rightarrow> (case fs ''de.json'' of None \<Rightarrow> None | Some f \<Rightarrow> count f)) = Some 0
   \<and> localStorage
        (storeQuotesData exampleEnv ''de'' [exampleQuote] (Some germanZero) emptyWorld)
        ''quotes_de_count'' = Some ''1''
   \<and> orZero (parseIntItem (localStorage
        (storeQuotesData exampleEnv ''de'' [exampleQuote] (Some germanZero) emptyWorld)
        ''quotes_de_count'')) = 1"
proof -
  have "localStorage (storeQuotesData exampleEnv ''de'' [exampleQuote] (Some germanZero) emptyWorld)
      ''quotes_de_count'' = Some ''1''"
    by (simp add: storeQuotesData_def setItem_def Let_def countKey_def quoteCountOf_def
        langFileOf_def fileName_def germanZero_def exampleEnv_def decimal_examples)
  then show ?thesis
    by (simp add: parseIntItem_def parseInt_examples orZero_def germanZero_def)
qed

subsection \<open>What each step does to the state\<close>

lemma logged_fields [simp]:
  "localStorage (logged r w) = localStorage w"
  "lastKnownLanguage (logged r w) = lastKnownLanguage w"
  "fetchLog (logged r w) = fetchLog w @ [r]"
  by (simp_all add: logged_def)

lemma setItem_fields [simp]:
  "localStorage (setItem key v w) = (localStorage w)(key \<mapsto> v)"
  "lastKnownLanguage (setItem key v w) = lastKnownLanguage w"
  "fetchLog (setItem key v w) = fetchLog w"
  by (simp_all add: setItem_def)

lemma fetchMetadata_world [simp]: "snd (fetchMetadata e w) = logged GetMetadata w"
  by (simp add: fetchMetadata_def split: response.splits option.splits)


lemma fetchAlternativeQuote_fields [simp]:
  "localStorage (snd (fetchAlternativeQuote e w)) = localStorage w"
  "lastKnownLanguage (snd (fetchAlternativeQuote e w)) = lastKnownLanguage w"
  by (simp_all add: fetchAlternativeQuote_def fetchVercelQuote_def fetchProgrammingQuote_def
      fetchDummyJsonQuote_def split: sum.splits)

lemma store_fields [simp]:
  "lastKnownLanguage (storeQuotesData e lang quotes md w) = lastKnownLanguage w"
  "lastKnownLanguage (storeNoDataInfo e lang md w) = lastKnownLanguage w"
  "lastKnownLanguage (storeAlternative e lang quotes w) = lastKnownLanguage w"
  "fetchLog (storeQuotesData e lang quotes md w) = fetchLog w"
  "fetchLog (storeNoDataInfo e lang md w) = fetchLog w"
  "fetchLog (storeAlternative e lang quotes w) = fetchLog w"
  by (simp_all add: storeQuotesData_def storeNoDataInfo_def storeAlternative_def Let_def
      split: option.splits)

lemma fetchAlternativeQuote_result:
  "fetchAlternativeQuote e w = (r, w1) \<Longrightarrow>
     localStorage w1 = localStorage w \<and> lastKnownLanguage w1 = lastKnownLanguage w"
  using fetchAlternativeQuote_fields [of e w] by simp

lemma bulkRefresh_lastKnown [simp]:
  "lastKnownLanguage (snd (bulkRefresh e w)) = lastKnownLanguage w"
  by (simp add: bulkRefresh_def fetchMetadata_def fetchQuotes_def Let_def
      split: response.splits option.splits)

lemma refreshPath_lastKnown [simp]:
  "lastKnownLanguage (snd (refreshPath e w)) = lastKnownLanguage w"
proof (cases "bulkRefresh e w")
  case (Pair r w1)
  then have k: "lastKnownLanguage w1 = lastKnownLanguage w"
    using bulkRefresh_lastKnown [of e w] by simp
  show ?thesis
  proof (cases "fetchAlternativeQuote e w1")
    case alt: (Pair r2 w2)
    with fetchAlternativeQuote_result [OF alt] k Pair show ?thesis
      by (simp add: refreshPath_def split: sum.splits)
  qed
qed

lemma englishFallback_lastKnown [simp]:
  "lastKnownLanguage (snd (englishFallback e w)) = lastKnownLanguage w"
proof -
  have alt: "lastKnownLanguage (snd (case fetchAlternativeQuote e w1 of
        (Inr alternativeQuote, w2) \<Rightarrow>
          (Inr [alternativeQuote], storeAlternative e ''en'' [alternativeQuote] w2)
      | (Inl altError, w2) \<Rightarrow> (Inr d, w2))) = lastKnownLanguage w1" for w1 d
    using fetchAlternativeQuote_result [of e w1]
    by (cases "fetchAlternativeQuote e w1") (auto split: sum.splits)
  show ?thesis
    by (simp add: englishFallback_def fetchMetadata_def fetchQuotes_def Let_def alt
        split: sum.splits cached.splits response.splits option.splits)
qed

lemma cachedPath_lastKnown [simp]:
  "lastKnownLanguage (snd (cachedPath e w)) = lastKnownLanguage w"
proof -
  have alt: "lastKnownLanguage (snd (case fetchAlternativeQuote e w of
        (Inr alternativeQuote, w1) \<Rightarrow>
          (Inr [alternativeQuote], storeAlternative e lang [alternativeQuote] w1)
      | (Inl altError, w1) \<Rightarrow> (Inr d, w1))) = lastKnownLanguage w" for lang d
    using fetchAlternativeQuote_result [of e w]
    by (cases "fetchAlternativeQuote e w") (auto split: sum.splits)
  show ?thesis
    by (simp add: cachedPath_def Let_def alt split: sum.splits cached.splits list.splits)
qed

lemma outerHandler_lastKnown [simp]:
  "lastKnownLanguage (snd (outerHandler e w)) = lastKnownLanguage w"
proof -
  have alt: "lastKnownLanguage (snd (case fetchAlternativeQuote e w of
        (Inr alternativeQuote, w1) \<Rightarrow> (Inr [alternativeQuote], w1)
      | (Inl altError, w1) \<Rightarrow> (Inr d, w1))) = lastKnownLanguage w" for d
    using fetchAlternativeQuote_result [of e w]
    by (cases "fetchAlternativeQuote e w") (auto split: sum.splits)
  show ?thesis
    by (simp add: outerHandler_def alt split: sum.splits cached.splits list.splits)
qed

lemma tryBody_lastKnown [simp]:
  "lastKnownLanguage (snd (tryBody e forceRefresh w)) = Some (currentLanguage e)"
  by (simp add: tryBody_def Let_def)

lemma getQuotesForLanguage_lastKnown:
  "lastKnownLanguage (snd (getQuotesForLanguage e forceRefresh w)) = Some (currentLanguage e)"
proof (cases "tryBody e forceRefresh w")
  case (Pair r w1)
  then have "lastKnownLanguage w1 = Some (currentLanguage e)"
    using tryBody_lastKnown [of e forceRefresh w] by simp
  with Pair show ?thesis
    by (simp add: getQuotesForLanguage_def split: sum.splits)
qed

lemma tryBody_overwrites:
  "tryBody e forceRefresh (w\<lparr>lastKnownLanguage := old\<rparr>) = tryBody e forceRefresh w"
  by (simp add: tryBody_def Let_def)

lemma parseInt_null: "parseInt ''null'' = None"
  by code_simp

lemma fetchAlternativeQuote_all_rejected:
  assumes "\<forall>h. vercelApi e h = Rejected" and "\<forall>h. programmingApi e h = Rejected"
    and "\<forall>h. dummyjsonApi e h = Rejected"
  shows "fetchAlternativeQuote e w =
     (Inl AllAlternativesFailed,
      w\<lparr>fetchLog := fetchLog w @ [GetVercel, GetProgramming, GetDummyJson]\<rparr>)"
  using assms
  by (simp add: fetchAlternativeQuote_def fetchVercelQuote_def fetchProgrammingQuote_def
      fetchDummyJsonQuote_def okJson_def logged_def)

lemma offline_uncached:
  assumes "\<not> onLine e" and "currentLanguage e \<noteq> ''en''"
    and "localStorage w (''quotes_'' @ currentLanguage e @ ''_count'') = None"
    and "localStorage w ''quotes_en'' = None"
    and "\<forall>h. metadataApi e h = Rejected"
    and "\<forall>h. vercelApi e h = Rejected" and "\<forall>h. programmingApi e h = Rejected"
    and "\<forall>h. dummyjsonApi e h = Rejected"
  shows "getQuotesForLanguage e False w =
     (Inr [FALLBACK_QUOTE],
      w\<lparr>lastKnownLanguage := Some (currentLanguage e),
        fetchLog := fetchLog w @ [GetMetadata, GetVercel, GetProgramming, GetDummyJson]\<rparr>)"
proof -
  let ?w0 = "w\<lparr>lastKnownLanguage := Some (currentLanguage e)\<rparr>"
  have nf: "\<not> needsDataFetch e ?w0 (currentLanguage e)"
    using assms(1) by (simp add: needsDataFetch_def)
  have en: "getStoredQuotes e ?w0 ''en'' = Inr JNull"
    using assms(4) by (simp add: getStoredQuotes_def quotesKey_def)
  have md: "fetchMetadata e ?w0 = (Inl NetworkError, logged GetMetadata ?w0)"
    using assms(5) by (simp add: fetchMetadata_def)
  note alt = fetchAlternativeQuote_all_rejected [OF assms(6,7,8)]
  have ef: "englishFallback e ?w0 =
     (Inr [FALLBACK_QUOTE],
      w\<lparr>lastKnownLanguage := Some (currentLanguage e),
        fetchLog := fetchLog w @ [GetMetadata, GetVercel, GetProgramming, GetDummyJson]\<rparr>)"
    by (simp add: englishFallback_def en md alt Let_def logged_def)
  have cp: "cachedPath e ?w0 = englishFallback e ?w0"
    using assms(2,3) by (simp add: cachedPath_def countKey_def parseIntItem_def parseInt_null orZero_def)
  show ?thesis
    by (simp add: getQuotesForLanguage_def tryBody_def Let_def nf cp ef)
qed

subsection \<open>The last observed language\<close>

text \<open>
  Claim C9. Whatever a call of \<^verbatim>\<open>getQuotesForLanguage\<close> does afterwards (fetch, fall back,
  fail, return the hardcoded quote), the state it leaves has the current language as the
  last observed one. The assignment comes before everything else: the outcome of the
  call, with its requests and its writes, is the same for every earlier value \<open>old\<close> of
  \<^verbatim>\<open>lastKnownLanguage\<close>, so no decision and no request of the call has seen that value.
  In the state the call leaves, the test for a language change,
  \<^verbatim>\<open>lastKnownLanguage !== null && lastKnownLanguage !== currentLanguage\<close>, is false.
\<close>

theorem getQuotesForLanguage_overwrites_language:
  "lastKnownLanguage (snd (getQuotesForLanguage e forceRefresh w)) = Some (currentLanguage e)
   \<and> getQuotesForLanguage e forceRefresh (w\<lparr>lastKnownLanguage := old\<rparr>)
       = getQuotesForLanguage e forceRefresh w
   \<and> \<not> (lastKnownLanguage (snd (getQuotesForLanguage e forceRefresh w)) \<noteq> None
         \<and> lastKnownLanguage (snd (getQuotesForLanguage e forceRefresh w))
             \<noteq> Some (currentLanguage e))"
proof -
  have a: "lastKnownLanguage (snd (getQuotesForLanguage e forceRefresh w)) = Some (currentLanguage e)"
    by (rule getQuotesForLanguage_lastKnown)
  have b: "getQuotesForLanguage e forceRefresh (w\<lparr>lastKnownLanguage := old\<rparr>)
      = getQuotesForLanguage e forceRefresh w"
    by (simp only: getQuotesForLanguage_def tryBody_overwrites)
  from a b show ?thesis by simp
qed

theorem getQuotesForLanguage_overwrites_language_witness:
  "lastKnownLanguage germanWorld = Some ''de''
   \<and> lastKnownLanguage (snd (getQuotesForLanguage exampleEnv False germanWorld)) = Some ''fr''
   \<and> getQuotesForLanguage exampleEnv False (germanWorld\<lparr>lastKnownLanguage := Some ''fr''\<rparr>)
       = getQuotesForLanguage exampleEnv False germanWorld"
  using getQuotesForLanguage_overwrites_language [of exampleEnv False germanWorld "Some ''fr''"]
  by (simp add: exampleEnv_def germanWorld_def)

subsection \<open>Offline with nothing cached\<close>

text \<open>
  Claim C4, as the code has it. Offline, \<^verbatim>\<open>needsDataFetch\<close> answers \<^verbatim>\<open>false\<close> and the refresh
  branch is skipped, but the branch that uses the stored data sends requests of its own:
  with no count stored for the language it turns to English, finds no English quotes
  and fetches the catalogue, then asks the three alternative providers (lines 320 to
  336). The claim has the call return the hardcoded quote with no request attempted; the
  counterexample below shows the four requests. What holds: when the browser is offline
  and every request is rejected, the language is not English and has none of its three
  keys in the store, and no English quotes are stored, the call without forced refresh
  returns the hardcoded quote after exactly these four requests, and writes nothing to
  the store.
\<close>

theorem offline_uncached_returns_fallback:
  assumes "\<not> onLine e" and "currentLanguage e \<noteq> ''en''"
    and "localStorage w (''quotes_'' @ currentLanguage e) = None"
    and "localStorage w (''quotes_'' @ currentLanguage e @ ''_timestamp'') = None"
    and "localStorage w (''quotes_'' @ currentLanguage e @ ''_count'') = None"
    and "localStorage w ''quotes_en'' = None"
    and "\<forall>h. metadataApi e h = Rejected"
    and "\<forall>h. vercelApi e h = Rejected" and "\<forall>h. programmingApi e h = Rejected"
    and "\<forall>h. dummyjsonApi e h = Rejected"
  shows "getQuotesForLanguage e False w =
     (Inr [FALLBACK_QUOTE],
      w\<lparr>lastKnownLanguage := Some (currentLanguage e),
        fetchLog := fetchLog w @ [GetMetadata, GetVercel, GetProgramming, GetDummyJson]\<rparr>)"
  using assms(1,2,5-) by (rule offline_uncached)

theorem offline_uncached_returns_fallback_witness:
  "getQuotesForLanguage offlineSpanish False emptyWorld =
     (Inr [FALLBACK_QUOTE],
      emptyWorld\<lparr>lastKnownLanguage := Some ''es'',
        fetchLog := [GetMetadata, GetVercel, GetProgramming, GetDummyJson]\<rparr>)"
  using offline_uncached_returns_fallback [of offlineSpanish emptyWorld]
  by (simp add: offlineSpanish_def exampleEnv_def emptyWorld_def)

theorem offline_uncached_requests_counterexample:
  "\<not> onLine offlineSpanish
   \<and> currentLanguage offlineSpanish = ''es''
   \<and> localStorage emptyWorld = Map.empty
   \<and> fst (getQuotesForLanguage offlineSpanish False emptyWorld) = Inr [FALLBACK_QUOTE]
   \<and> fetchLog emptyWorld = []
   \<and> fetchLog (snd (getQuotesForLanguage offlineSpanish False emptyWorld))
       = [GetMetadata, GetVercel, GetProgramming, GetDummyJson]"
  using offline_uncached [of offlineSpanish emptyWorld]
  by (simp add: offlineSpanish_def exampleEnv_def emptyWorld_def)

subsection \<open>What stays in the cache\<close>










lemma outerHandler_storage [simp]:
  "localStorage (snd (outerHandler e w)) = localStorage w"
proof -
  have alt: "localStorage (snd (case fetchAlternativeQuote e w of
        (Inr alternativeQuote, w1) \<Rightarrow> (Inr [alternativeQuote], w1)
      | (Inl altError, w1) \<Rightarrow> (Inr d, w1))) = localStorage w" for d
    using fetchAlternativeQuote_result [of e w]
    by (cases "fetchAlternativeQuote e w") (auto split: sum.splits)
  show ?thesis
    by (simp add: outerHandler_def alt split: sum.splits cached.splits list.splits)
qed







subsection \<open>The outer handler\<close>

text \<open>
  The one exception that leaves \<^verbatim>\<open>getQuotesForLanguage\<close> is the \<^verbatim>\<open>SyntaxError\<close> of
  \<^verbatim>\<open>JSON.parse\<close> on the text cached for the current language or for English, read by the
  handler itself; every other failure ends in a list of quotes.
\<close>

lemma getStoredQuotes_error:
  assumes "getStoredQuotes e w lang = Inl err"
  shows "err = JsonSyntaxError
      \<and> (\<exists>s. localStorage w (quotesKey lang) = Some s \<and> s \<noteq> [] \<and> JSON_parse e s = None)"
  using assms by (auto simp: getStoredQuotes_def split: option.splits if_splits)

lemma outerHandler_error:
  assumes "fst (outerHandler e w) = Inl err"
  shows "err = JsonSyntaxError
      \<and> (\<exists>lang s. (lang = currentLanguage e \<or> lang = ''en'')
            \<and> localStorage w (quotesKey lang) = Some s \<and> s \<noteq> [] \<and> JSON_parse e s = None)"
proof -
  have alt: "fst (case fetchAlternativeQuote e w of
        (Inr alternativeQuote, w1) \<Rightarrow> (Inr [alternativeQuote], w1)
      | (Inl altError, w1) \<Rightarrow> (Inr [FALLBACK_QUOTE], w1)) \<noteq> Inl err"
    by (cases "fetchAlternativeQuote e w") (auto split: sum.splits)
  show ?thesis
  proof (cases "getStoredQuotes e w (currentLanguage e)")
    case (Inl a)
    with assms have "a = err" by (simp add: outerHandler_def)
    with Inl getStoredQuotes_error [of e w "currentLanguage e" err] show ?thesis by blast
  next
    case (Inr current)
    show ?thesis
    proof (cases "current = JNull")
      case False
      with Inr assms alt show ?thesis
        by (simp add: outerHandler_def split: cached.splits list.splits)
    next
      case True
      show ?thesis
      proof (cases "getStoredQuotes e w ''en''")
        case (Inl a)
        with Inr True assms have "a = err" by (simp add: outerHandler_def)
        with Inl getStoredQuotes_error [of e w "''en''" err] show ?thesis by blast
      next
        case en: (Inr quotes)
        with Inr True assms alt show ?thesis
          by (simp add: outerHandler_def split: cached.splits list.splits)
      qed
    qed
  qed
qed

lemma getQuotesForLanguage_error:
  assumes "fst (getQuotesForLanguage e forceRefresh w) = Inl err"
  shows "err = JsonSyntaxError
      \<and> (\<exists>lang s. (lang = currentLanguage e \<or> lang = ''en'')
            \<and> localStorage (snd (getQuotesForLanguage e forceRefresh w)) (quotesKey lang) = Some s
            \<and> s \<noteq> [] \<and> JSON_parse e s = None)"
proof (cases "tryBody e forceRefresh w")
  case (Pair r w1)
  show ?thesis
  proof (cases r)
    case (Inr quotes)
    with Pair assms show ?thesis by (simp add: getQuotesForLanguage_def)
  next
    case (Inl a)
    with Pair have g: "getQuotesForLanguage e forceRefresh w = outerHandler e w1"
      by (simp add: getQuotesForLanguage_def)
    with assms outerHandler_error [of e w1 err] show ?thesis by simp
  qed
qed

text \<open>
  Claim C1, at two inputs where the code departs from it. First, the handler reads the
  cache through \<^verbatim>\<open>getStoredQuotes\<close> outside any \<^verbatim>\<open>try\<close>: with a cached text that
  \<^verbatim>\<open>JSON.parse\<close> rejects, the read in the pipeline fails, the handler runs, its own read
  fails again and the call raises. Second, the handler takes the cached value of the
  language whenever it is not \<^verbatim>\<open>null\<close>: with the no-data marker \<^verbatim>\<open>[]\<close> stored for the
  language it never looks at the English quotes, which are cached, and ends with the
  hardcoded quote once the providers have failed.
\<close>

theorem getQuotesForLanguage_raises_on_corrupt_cache:
  "JSON_parse exampleEnv ''{oops'' = None
   \<and> fst (getQuotesForLanguage exampleEnv False (cachedWorld ''fr'' ''{oops'' ''150''))
       = Inl JsonSyntaxError
   \<and> getStoredQuotes (atTime (1704067200000 + 86400001)) markerWorld ''en''
       = Inr (JArray [exampleQuote])
   \<and> fst (getQuotesForLanguage (atTime (1704067200000 + 86400001)) False markerWorld)
       = Inr [FALLBACK_QUOTE]"
proof -
  let ?w = "cachedWorld ''fr'' ''{oops'' ''150''"
  let ?v = "?w\<lparr>lastKnownLanguage := Some ''fr''\<rparr>"
  have env: "currentLanguage exampleEnv = ''fr''" "onLine exampleEnv" "now exampleEnv = 1704153600000"
    "Date_getTime exampleEnv = exampleGetTime" "JSON_parse exampleEnv = exampleParse"
    by (simp_all add: exampleEnv_def)
  have bad: "exampleParse ''{oops'' = None" by (simp add: exampleParse_def)
  have nf: "\<not> needsDataFetch exampleEnv ?v ''fr''"
    by (simp add: needsDataFetch_def env cachedWorld_def quotesKey_def timestampKey_def
        countKey_def falsy_def parseIntItem_def parseInt_examples orZero_def exampleGetTime_def
        greaterThan_def MIN_QUOTES_FOR_LANG_def ONE_DAY_def)
  have rd: "getStoredQuotes exampleEnv ?v ''fr'' = Inl JsonSyntaxError"
    by (simp add: getStoredQuotes_def quotesKey_def cachedWorld_def env bad)
  have cnt: "localStorage ?w (countKey ''fr'') = Some ''150''"
    by (simp add: countKey_def cachedWorld_def)
  have cp: "cachedPath exampleEnv ?v = (Inl JsonSyntaxError, ?v)"
    by (simp add: cachedPath_def Let_def env rd cnt parseIntItem_def parseInt_examples orZero_def)
  have oh: "outerHandler exampleEnv ?v = (Inl JsonSyntaxError, ?v)"
    by (simp add: outerHandler_def env rd)
  have a: "fst (getQuotesForLanguage exampleEnv False ?w) = Inl JsonSyntaxError"
    by (simp add: getQuotesForLanguage_def tryBody_def Let_def env nf cp oh)
  let ?e = "atTime 1704153600001"
  let ?m = "markerWorld\<lparr>lastKnownLanguage := Some ''fr''\<rparr>"
  have env2: "currentLanguage ?e = ''fr''" "onLine ?e" "now ?e = 1704153600001"
    "Date_getTime ?e = exampleGetTime" "JSON_parse ?e = exampleParse"
    "metadataApi ?e = (\<lambda>h. Rejected)"
    "\<forall>h. vercelApi ?e h = Rejected" "\<forall>h. programmingApi ?e h = Rejected"
    "\<forall>h. dummyjsonApi ?e h = Rejected"
    by (simp_all add: atTime_def exampleEnv_def)
  note alt = fetchAlternativeQuote_all_rejected [OF env2(7,8,9)]
  have nf2: "needsDataFetch ?e ?m ''fr''"
    by (simp add: needsDataFetch_def env2 markerWorld_def quotesKey_def timestampKey_def
        countKey_def falsy_def parseIntItem_def parseInt_examples orZero_def exampleGetTime_def
        greaterThan_def ONE_DAY_def)
  have bulk: "bulkRefresh ?e ?m = (Inl NetworkError, logged GetMetadata ?m)"
    by (simp add: bulkRefresh_def fetchMetadata_def env2)
  have rp: "refreshPath ?e ?m =
      (Inl AllAlternativesFailed,
       (logged GetMetadata ?m)\<lparr>fetchLog := fetchLog (logged GetMetadata ?m)
          @ [GetVercel, GetProgramming, GetDummyJson]\<rparr>)"
    by (simp add: refreshPath_def bulk alt)
  have en: "getStoredQuotes ?e markerWorld ''en'' = Inr (JArray [exampleQuote])"
    by (simp add: getStoredQuotes_def quotesKey_def markerWorld_def env2 exampleParse_def)
  have fr: "getStoredQuotes ?e w ''fr'' = Inr (JArray [])"
    if "localStorage w = localStorage markerWorld" for w
    using that by (simp add: getStoredQuotes_def quotesKey_def markerWorld_def env2 exampleParse_def)
  have oh2: "fst (outerHandler ?e w) = Inr [FALLBACK_QUOTE]"
    if "localStorage w = localStorage markerWorld" for w
    by (simp add: outerHandler_def env2 fr [OF that] alt)
  have b: "fst (getQuotesForLanguage ?e False markerWorld) = Inr [FALLBACK_QUOTE]"
    by (simp add: getQuotesForLanguage_def tryBody_def Let_def env2 nf2 rp oh2 logged_def)
  from a b en bad env show ?thesis by simp
qed

end
